theory Spec2Isabelle
  imports Complex_Main
begin

text \<open>
  A shallow embedding of the parts of dpLGAR that its specification makes statements
  about: the AET extractor (\<open>lgartorch/models/physics/lgar/aet.py\<close>), the synthetic
  agent's constructor and main loop (\<open>dpLGAR/agents/SyntheticAgent.py\<close>), the torch
  dataset (\<open>lgartorch/data/Data.py\<close>) and the BMI adapter (\<open>src/LGARBmi.py\<close>).

  Conventions. A float64 scalar or 0-dimensional tensor is a \<open>real\<close>: rounding, infinities
  and NaN are outside the model. A 1-dimensional tensor is a \<open>real list\<close>, a 2-dimensional
  one the list of its rows. A Python exception is a value of type \<open>error\<close>, and a function
  that can raise returns \<open>error + 'a\<close> with \<open>Inl\<close> for the exception. Classes and helper
  modules that the sources import but do not contain are parameters of the functions that
  call them.
\<close>

section \<open>Python exceptions\<close>

text \<open>
  The exceptions the modelled code can raise. \<open>UnknownTextureError\<close> is the name the
  specification uses for a failed texture lookup; no source file defines or raises it.
\<close>

datatype error =
    ValueError | KeyError | IndexError | AttributeError | TypeError
  | NameError string | ZeroDivisionError | FileNotFoundError
  | UnknownTextureError

section \<open>lgartorch/models/physics/lgar/aet.py\<close>


text \<open>
  The module \<open>lgartorch.models.physics.utils\<close> is imported by \<open>aet.py\<close> and \<open>Data.py\<close>
  but is not among the sources. Its functions are therefore taken as a parameter: a record
  with one field per imported function, each with the argument order of its call sites.
\<close>

record physics_utils =
  calc_theta_from_h :: "real \<Rightarrow> real \<Rightarrow> real \<Rightarrow> real \<Rightarrow> real \<Rightarrow> real \<Rightarrow> real"
  calc_se_from_theta :: "real \<Rightarrow> real \<Rightarrow> real \<Rightarrow> real"
  calc_h_from_se :: "real \<Rightarrow> real \<Rightarrow> real \<Rightarrow> real \<Rightarrow> real"
  calc_bc_lambda :: "real \<Rightarrow> real"
  calc_bc_psib :: "real \<Rightarrow> real \<Rightarrow> real"
  calc_h_min_cm :: "real \<Rightarrow> real \<Rightarrow> real"







text \<open>
  Modelled from the spec: the bodies of the functions of \<open>lgartorch.models.physics.utils\<close>
  are missing. The specification names the relations they compute (van Genuchten,
  Brooks-Corey) and prints one of them, the effective saturation
  \<open>Se = (\<theta> - \<theta>r) / (\<theta>e - \<theta>r)\<close> of section 4.2. The record below is one choice of them,
  with the usual closed forms for the others, and serves only to evaluate the model at
  concrete inputs. Every general theorem below holds for an arbitrary \<open>physics_utils\<close>.
\<close>

definition example_utils :: physics_utils where
  "example_utils =
     \<lparr> calc_theta_from_h = (\<lambda>h alpha n m theta_e theta_r.
          1 / (1 + (alpha * h) powr n) powr m * (theta_e - theta_r) + theta_r),
       calc_se_from_theta = (\<lambda>theta e r. (theta - r) / (e - r)),
       calc_h_from_se = (\<lambda>se alpha m n. 1 / alpha * (se powr (- 1 / m) - 1) powr (1 / n)),
       calc_bc_lambda = (\<lambda>n. 2 / ((1 + 2 / (1 - 1 / n)) - 3)),
       calc_bc_psib = (\<lambda>alpha n. let p = 1 + 2 / (1 - 1 / n) in
          (p + 3) * (147.8 + 8.1 * p + 0.092 * p * p) / (2 * alpha * p * (p - 1) * (55.6 + 7.4 * p + p * p))),
       calc_h_min_cm = (\<lambda>bc_lambda bc_psib_cm.
          bc_psib_cm * (2 + 3 / bc_lambda) / (1 + 3 / bc_lambda)) \<rparr>"


section \<open>dpLGAR/agents/SyntheticAgent.py\<close>



















section \<open>lgartorch/data/Data.py\<close>

text \<open>
  The two files \<open>Data\<close> reads, as parsed data frames: the forcing file with its columns
  \<open>Time\<close>, \<open>P(mm/h)\<close>, \<open>PET(mm/h)\<close> and the soil parameter file with its columns
  \<open>Texture\<close>, \<open>theta_r\<close>, \<open>theta_e\<close>, \<open>alpha(cm^-1)\<close>, \<open>n\<close>, \<open>m\<close>, \<open>Ks(cm/h)\<close>. A frame
  is a list of rows, so all columns of a frame have the same length. Reading a column that
  a frame does not have raises \<open>KeyError\<close>.
\<close>

record forcing_row =
  col_Time :: string
  col_P :: real
  col_PET :: real

record soils_row =
  col_Texture :: string
  col_theta_r :: real
  col_theta_e :: real
  col_alpha :: real
  col_n :: real
  col_m :: real
  col_Ks :: real

datatype dataframe = ForcingFrame "forcing_row list" | SoilsFrame "soils_row list"

text \<open>
  The values of the attributes of a \<open>Data\<close> object, and the object itself as its attribute
  dictionary. The class \<open>Data\<close> and its base class \<open>Dataset\<close> define methods only, and none
  of them is named \<open>x\<close>, \<open>y\<close>, \<open>c\<close> or \<open>texture_map\<close>, so reading an attribute that the
  dictionary lacks raises \<open>AttributeError\<close>.
\<close>

datatype pyval =
    DataFrame dataframe
  | Dict "string \<Rightarrow> nat option"
  | Tensor "real list list"

type_synonym py_object = "string \<Rightarrow> pyval option"

definition getattr :: "py_object \<Rightarrow> string \<Rightarrow> error + pyval" where
  "getattr self name = (case self name of None \<Rightarrow> Inl AttributeError | Some v \<Rightarrow> Inr v)"

text \<open>
  The configuration entries \<open>Data\<close> reads: \<open>cfg.data.forcing_file\<close>,
  \<open>cfg.data.soil_params_file\<close>, \<open>cfg.data.wilting_point_psi\<close> and
  \<open>cfg.constants.frozen_factor\<close>.
\<close>

record data_cfg =
  forcing_file :: string
  soil_params_file :: string
  wilting_point_psi :: real
  frozen_factor :: real

text \<open>
  \<open>Path(file).suffix\<close>: the part of the last path component from its last dot on, empty
  when that dot is the first or the last character of the component or there is none.
\<close>

definition path_name :: "string \<Rightarrow> string" where
  "path_name file = rev (takeWhile (\<lambda>ch. ch \<noteq> CHR ''/'') (rev file))"

definition path_suffix :: "string \<Rightarrow> string" where
  "path_suffix file =
     (let name = path_name file;
          tail = rev (takeWhile (\<lambda>ch. ch \<noteq> CHR ''.'') (rev name))
      in if CHR ''.'' \<in> set name \<and> Suc (length tail) < length name \<and> tail \<noteq> []
         then CHR ''.'' # tail else [])"

text \<open>
  \<open>read_df\<close>, lines 87 to 105. The file system is a map from paths to parsed frames; a path
  it does not hold cannot be opened.
\<close>

definition read_csv :: "(string \<Rightarrow> dataframe option) \<Rightarrow> string \<Rightarrow> error + dataframe" where
  "read_csv fs file = (case fs file of None \<Rightarrow> Inl FileNotFoundError | Some df \<Rightarrow> Inr df)"

definition read_df :: "(string \<Rightarrow> dataframe option) \<Rightarrow> string \<Rightarrow> error + dataframe" where
  "read_df fs file =
     (if path_suffix file = ''.csv'' then read_csv fs file
      else if path_suffix file = ''.dat'' then read_csv fs file
      else Inl ValueError)"

text \<open>
  The dictionary comprehension \<open>{key: idx for idx, key in enumerate(keys)}\<close>: keys are
  entered in order, so a key that occurs twice keeps the index of its last occurrence.
\<close>

fun dict_enumerate :: "nat \<Rightarrow> string list \<Rightarrow> (string \<Rightarrow> nat option) \<Rightarrow> (string \<Rightarrow> nat option)" where
  "dict_enumerate idx [] d = d"
| "dict_enumerate idx (k # ks) d = dict_enumerate (Suc idx) ks (d(k \<mapsto> idx))"

text \<open>
  \<open>generate_soil_metrics\<close>, lines 107 to 155. The helper functions act on the column
  tensors element by element; the result stacks eleven columns.
\<close>

definition generate_soil_metrics :: "physics_utils \<Rightarrow> data_cfg \<Rightarrow> soils_row list \<Rightarrow> real list list" where
  "generate_soil_metrics U c soils_df =
     (let h = wilting_point_psi c;
          alpha = map col_alpha soils_df;
          n = map col_n soils_df;
          m = map col_m soils_df;
          theta_e = map col_theta_e soils_df;
          theta_r = map col_theta_r soils_df;
          k_sat = map col_Ks soils_df;
          ksat_cm_per_h = map (\<lambda>k. k * frozen_factor c) k_sat;
          theta_wp = map (\<lambda>r. calc_theta_from_h U h (col_alpha r) (col_n r) (col_m r)
                                 (col_theta_e r) (col_theta_r r)) soils_df;
          bc_lambda = map (calc_bc_lambda U) n;
          bc_psib_cm = map2 (calc_bc_psib U) alpha n;
          h_min_cm = map2 (calc_h_min_cm U) bc_lambda bc_psib_cm
      in [theta_e, theta_r, theta_wp, alpha, n, m, k_sat, ksat_cm_per_h,
          bc_lambda, bc_psib_cm, h_min_cm])"

definition column_map :: "string \<Rightarrow> nat option" where
  "column_map =
     [''theta_e'' \<mapsto> 0, ''theta_r'' \<mapsto> 1, ''theta_wp'' \<mapsto> 2, ''alpha'' \<mapsto> 3, ''n'' \<mapsto> 4,
      ''m'' \<mapsto> 5, ''k_sat'' \<mapsto> 6, ''ksat_cm_per_h'' \<mapsto> 7, ''bc_lambda'' \<mapsto> 8,
      ''bc_psib_cm'' \<mapsto> 9, ''h_min_cm'' \<mapsto> 10]"

text \<open>\<open>Data.__init__\<close>, lines 36 to 70: the attributes in the order they are assigned.\<close>

definition Data_init ::
  "physics_utils \<Rightarrow> data_cfg \<Rightarrow> (string \<Rightarrow> dataframe option) \<Rightarrow> error + py_object" where
  "Data_init U c fs =
     (case read_df fs (forcing_file c) of
        Inl e \<Rightarrow> Inl e
      | Inr (SoilsFrame _) \<Rightarrow> Inl KeyError
      | Inr (ForcingFrame forcing) \<Rightarrow>
          let self1 = [''forcing_df'' \<mapsto> DataFrame (ForcingFrame forcing)];
              time_values = map col_Time forcing;
              self2 = self1(''timestep_map'' \<mapsto> Dict (dict_enumerate 0 time_values Map.empty));
              precip = map col_P forcing;
              pet = map col_PET forcing;
              self3 = self2(''x'' \<mapsto> Tensor [precip, pet])
          in (case read_df fs (soil_params_file c) of
                Inl e \<Rightarrow> Inl e
              | Inr (ForcingFrame _) \<Rightarrow> Inl KeyError
              | Inr (SoilsFrame soils) \<Rightarrow>
                  let self4 = self3(''soils_df'' \<mapsto> DataFrame (SoilsFrame soils));
                      texture_values = map col_Texture soils;
                      self5 = self4(''texture_map'' \<mapsto> Dict (dict_enumerate 0 texture_values Map.empty));
                      self6 = self5(''c'' \<mapsto> Tensor (generate_soil_metrics U c soils));
                      self7 = self6(''column_map'' \<mapsto> Dict column_map)
                  in Inr self7))"



text \<open>\<open>Data.__len__\<close>, line 85: \<open>len\<close> of a tensor is the size of its first dimension.\<close>

definition Data_len :: "py_object \<Rightarrow> error + nat" where
  "Data_len self =
     (case getattr self ''x'' of
        Inl e \<Rightarrow> Inl e
      | Inr (Tensor rows) \<Rightarrow> Inr (length rows)
      | Inr _ \<Rightarrow> Inl TypeError)"




text \<open>A concrete data set: three hours of forcing and two soil textures.\<close>

definition example_forcing :: "forcing_row list" where
  "example_forcing =
     [\<lparr>col_Time = ''2016-10-01 00:00:00'', col_P = 0, col_PET = 1 / 10\<rparr>,
      \<lparr>col_Time = ''2016-10-01 01:00:00'', col_P = 2, col_PET = 0\<rparr>,
      \<lparr>col_Time = ''2016-10-01 02:00:00'', col_P = 1, col_PET = 0\<rparr>]"

definition example_soils :: "soils_row list" where
  "example_soils =
     [\<lparr>col_Texture = ''sand'', col_theta_r = 1 / 20, col_theta_e = 2 / 5, col_alpha = 1 / 30,
       col_n = 3, col_m = 2 / 3, col_Ks = 20\<rparr>,
      \<lparr>col_Texture = ''clay'', col_theta_r = 1 / 10, col_theta_e = 1 / 2, col_alpha = 1 / 300,
       col_n = 2, col_m = 1 / 2, col_Ks = 2\<rparr>]"

definition example_files :: "string \<Rightarrow> dataframe option" where
  "example_files =
     [''data/forcing.csv'' \<mapsto> ForcingFrame example_forcing,
      ''data/vG_params.dat'' \<mapsto> SoilsFrame example_soils]"

definition example_data_cfg :: data_cfg where
  "example_data_cfg =
     \<lparr> forcing_file = ''data/forcing.csv'', soil_params_file = ''data/vG_params.dat'',
       wilting_point_psi = 400, frozen_factor = 1 / 2 \<rparr>"

definition example_data :: py_object where
  "example_data =
     [''forcing_df'' \<mapsto> DataFrame (ForcingFrame example_forcing),
      ''timestep_map'' \<mapsto> Dict (dict_enumerate 0 (map col_Time example_forcing) Map.empty),
      ''x'' \<mapsto> Tensor [map col_P example_forcing, map col_PET example_forcing],
      ''soils_df'' \<mapsto> DataFrame (SoilsFrame example_soils),
      ''texture_map'' \<mapsto> Dict (dict_enumerate 0 (map col_Texture example_soils) Map.empty),
      ''c'' \<mapsto> Tensor (generate_soil_metrics example_utils example_data_cfg example_soils),
      ''column_map'' \<mapsto> Dict column_map]"

section \<open>src/LGARBmi.py\<close>


record 'm LGARBmi =
  bmi_model :: "'m option"
  bmi_start_time :: real
  bmi_end_time :: "real option"




text \<open>
  \<open>LGARBmi.finalize\<close>, lines 138 to 154. The method has one local name, \<open>self\<close>; every
  other name in its body is looked up among the names the module binds at top level (its
  imports, \<open>log\<close> and the class) and then among the builtins, none of which is one of the
  ten quantities of the report. A name that is not bound raises \<open>NameError\<close>. The log is the
  list of messages passed to \<open>log.info\<close>; how a bound object would be printed is not modelled.
\<close>

definition module_globals :: "string list" where
  "module_globals =
     [''Bmi'', ''logging'', ''OmegaConf'', ''DictConfig'', ''time'', ''torch'', ''tqdm'',
      ''Tuple'', ''read_forcing_data'', ''LGAR'', ''log'', ''LGARBmi'']"

definition load_global :: "string \<Rightarrow> error + string" where
  "load_global name = (if name \<in> set module_globals then Inr name else Inl (NameError name))"

datatype log_entry = Info string | InfoSeconds real | InfoQuantity string string

fun log_quantities ::
  "(string \<times> string) list \<Rightarrow> log_entry list \<Rightarrow> log_entry list \<times> (error + unit)" where
  "log_quantities [] logged = (logged, Inr ())"
| "log_quantities ((label, name) # rest) logged =
     (case load_global name of
        Inl e \<Rightarrow> (logged, Inl e)
      | Inr v \<Rightarrow> log_quantities rest (logged @ [InfoQuantity label v]))"

definition mass_balance_lines :: "(string \<times> string) list" where
  "mass_balance_lines =
     [(''initial water in soil'', ''volstart''),
      (''total precipitation input'', ''volprecip''),
      (''total infiltration'', ''volin''),
      (''final water in soil'', ''volend''),
      (''water remaining on surface'', ''volon''),
      (''surface runoff'', ''volrunoff''),
      (''total percolation'', ''volrech''),
      (''total AET'', ''volAET''),
      (''total PET'', ''volPET''),
      (''global balance'', ''global_error_cm'')]"

definition finalize ::
  "real \<Rightarrow> 'm LGARBmi \<Rightarrow> 'm LGARBmi \<times> log_entry list \<times> (error + unit)" where
  "finalize perf_counter self =
     (let self1 = self\<lparr>bmi_end_time := Some perf_counter\<rparr>;
          logged = [Info ''Simulation Summary'',
                    InfoSeconds (perf_counter - bmi_start_time self1),
                    Info ''Mass balance''];
          (logged1, outcome) = log_quantities mass_balance_lines logged
      in (self1, logged1, outcome))"


section \<open>Auxiliary facts\<close>

subsection \<open>Arithmetic of the example retention curve\<close>










subsection \<open>The code's curve is the S-curve at \<open>h\<^sub>5\<^sub>0\<close>, clamped\<close>





subsection \<open>The loop of \<open>run\<close>\<close>






subsection \<open>The attributes of a constructed \<open>Data\<close> object\<close>

lemma Data_init_attrs:
  assumes "Data_init U c fs = Inr self"
  shows "\<exists>forcing soils.
           fs (forcing_file c) = Some (ForcingFrame forcing)
         \<and> fs (soil_params_file c) = Some (SoilsFrame soils)
         \<and> self ''x'' = Some (Tensor [map col_P forcing, map col_PET forcing])
         \<and> self ''y'' = None
         \<and> self ''texture_map'' = Some (Dict (dict_enumerate 0 (map col_Texture soils) Map.empty))
         \<and> self ''c'' = Some (Tensor (generate_soil_metrics U c soils))"
  using assms
  by (auto simp: Data_init_def read_df_def read_csv_def Let_def
           split: sum.splits dataframe.splits option.splits if_splits)







lemma example_Data_init:
  "Data_init example_utils example_data_cfg example_files = Inr example_data"
proof -
  have s1: "path_suffix ''data/forcing.csv'' = ''.csv''"
    by (simp add: path_suffix_def path_name_def)
  have s2: "path_suffix ''data/vG_params.dat'' = ''.dat''"
    by (simp add: path_suffix_def path_name_def)
  have f: "forcing_file example_data_cfg = ''data/forcing.csv''"
    and g: "soil_params_file example_data_cfg = ''data/vG_params.dat''"
    by (simp_all add: example_data_cfg_def)
  have r1: "read_df example_files ''data/forcing.csv'' = Inr (ForcingFrame example_forcing)"
    by (simp add: read_df_def read_csv_def s1 example_files_def)
  have r2: "read_df example_files ''data/vG_params.dat'' = Inr (SoilsFrame example_soils)"
    by (simp add: read_df_def read_csv_def s2 example_files_def)
  show ?thesis
    unfolding Data_init_def f g r1 r2 example_data_def
    by (simp add: Let_def)
qed


section \<open>The AET extractor\<close>






section \<open>The synthetic agent\<close>






section \<open>The dataset and the BMI adapter\<close>







text \<open>
  Claim C8 (finalize). \<open>LGARBmi.finalize\<close> evaluated on any adapter state and any clock
  reading: it records the end time, logs the summary heading, the elapsed time and the mass
  balance heading, and then raises \<open>NameError\<close> on \<open>volstart\<close>, the first of the ten
  quantities of the closure report. None of them is logged.
\<close>

theorem finalize_raises_NameError:
  "finalize perf_counter self =
     (self\<lparr>bmi_end_time := Some perf_counter\<rparr>,
      [Info ''Simulation Summary'', InfoSeconds (perf_counter - bmi_start_time self),
       Info ''Mass balance''],
      Inl (NameError ''volstart''))"
  by (simp add: finalize_def mass_balance_lines_def load_global_def module_globals_def)




text \<open>
  Claim C10 (length of the dataset). For every constructed \<open>Data\<close> object, \<open>__len__\<close>
  returns \<open>2\<close>, the number of stacked forcing channels, whatever the number of time steps
  of the forcing series is.
\<close>

theorem len_is_two:
  assumes "Data_init U c fs = Inr self"
  shows "Data_len self = Inr 2"
proof -
  from Data_init_attrs[OF assms] obtain forcing :: "forcing_row list" where
    x: "self ''x'' = Some (Tensor [map col_P forcing, map col_PET forcing])"
    by blast
  show ?thesis
    by (simp add: Data_len_def getattr_def x)
qed

theorem len_is_two_example:
  "Data_init example_utils example_data_cfg example_files = Inr example_data
   \<and> length example_forcing = 3
   \<and> Data_len example_data = Inr 2"
  using len_is_two[OF example_Data_init] by (simp add: example_Data_init example_forcing_def)

end
